theory Spec2Isabelle
  imports Complex_Main
begin

section \<open>JavaScript values used by the configuration loader\<close>

text \<open>
  A JavaScript string is modelled as an Isabelle \<open>string\<close>, one \<open>char\<close> per UTF-16 code
  unit; the model therefore covers the strings whose code units are below 256 (Latin-1).
  \<open>undefined\<close> is \<open>None\<close> of an option type.
\<close>

subsection \<open>White space, \<open>String.prototype.trim\<close> and \<open>toLowerCase\<close>\<close>

text \<open>
  ECMAScript's WhiteSpace and LineTerminator code points below 256: TAB, LF, VT, FF, CR,
  SP and NBSP. Both \<open>trim\<close> and the string-to-number grammar strip exactly these.
\<close>

definition is_StrWhiteSpaceChar :: "char \<Rightarrow> bool" where
  "is_StrWhiteSpaceChar c =
     (c = CHR 0x09 \<or> c = CHR 0x0A \<or> c = CHR 0x0B \<or> c = CHR 0x0C \<or> c = CHR 0x0D \<or>
      c = CHR 0x20 \<or> c = CHR 0xA0)"

definition trim :: "string \<Rightarrow> string" where
  "trim s = rev (dropWhile is_StrWhiteSpaceChar (rev (dropWhile is_StrWhiteSpaceChar s)))"

text \<open>
  \<open>toLowerCase\<close> on Latin-1: \<open>A\<close>..\<open>Z\<close> and the accented capitals U+00C0..U+00DE
  (U+00D7, the multiplication sign, apart) move up by 32; every other code unit stays.
\<close>

definition toLowerCase_char :: "char \<Rightarrow> char" where
  "toLowerCase_char c =
     (let n = (of_char c :: nat) in
      if (65 \<le> n \<and> n \<le> 90) \<or> (192 \<le> n \<and> n \<le> 222 \<and> n \<noteq> 215)
      then char_of (n + 32) else c)"

definition toLowerCase :: "string \<Rightarrow> string" where
  "toLowerCase s = map toLowerCase_char s"

subsection \<open>Numbers and \<open>Number(string)\<close>\<close>

text \<open>
  A JavaScript number is an IEEE-754 double: NaN, the two infinities, or a finite value,
  kept here as the rational it denotes (the two zeros are not told apart: they compare
  equal under \<open>>=\<close> and \<open>===\<close>).
\<close>

datatype js_number = NaN | Finite rat | PosInfinity | NegInfinity

text \<open>\<open>a >= b\<close> on numbers: false as soon as one side is NaN.\<close>

fun js_ge :: "js_number \<Rightarrow> js_number \<Rightarrow> bool" where
  "js_ge NaN _ = False"
| "js_ge _ NaN = False"
| "js_ge PosInfinity _ = True"
| "js_ge _ NegInfinity = True"
| "js_ge NegInfinity _ = False"
| "js_ge _ PosInfinity = False"
| "js_ge (Finite a) (Finite b) = (b \<le> a)"

text \<open>Rounding a mathematical value to the nearest double, ties to even.\<close>

fun bitlen :: "nat \<Rightarrow> nat" where
  "bitlen n = (if n = 0 then 0 else Suc (bitlen (n div 2)))"

definition pow2 :: "int \<Rightarrow> rat" where
  "pow2 k = (if 0 \<le> k then 2 ^ nat k else 1 / 2 ^ nat (- k))"

definition floor_log2 :: "rat \<Rightarrow> int" where
  "floor_log2 x =
     (let (a, b) = quotient_of x;
          k = int (bitlen (nat a)) - int (bitlen (nat b))
      in if pow2 k \<le> x then k else k - 1)"

definition round_half_even :: "rat \<Rightarrow> int" where
  "round_half_even x =
     (let f = \<lfloor>x\<rfloor>; d = x - of_int f in
      if d < 1 / 2 then f
      else if 1 / 2 < d then f + 1
      else if even f then f else f + 1)"

definition to_double :: "rat \<Rightarrow> js_number" where
  "to_double q =
     (if q = 0 then Finite 0
      else
        let a = \<bar>q\<bar>;
            e = max (floor_log2 a) (- 1022);
            ulp = pow2 (e - 52);
            v = of_int (round_half_even (a / ulp)) * ulp
        in if pow2 1024 \<le> v then (if 0 < q then PosInfinity else NegInfinity)
           else Finite (if 0 < q then v else - v))"

text \<open>
  The StringNumericLiteral grammar behind \<open>Number(s)\<close>: optional white space around
  nothing (the value 0), a signed decimal literal (digits, fraction, exponent, or
  \<open>Infinity\<close>), or an unsigned binary, octal or hexadecimal integer literal. Anything
  else is NaN.
\<close>

definition digit_table :: "(char \<times> nat) list" where
  "digit_table =
     [(CHR ''0'', 0), (CHR ''1'', 1), (CHR ''2'', 2), (CHR ''3'', 3), (CHR ''4'', 4),
      (CHR ''5'', 5), (CHR ''6'', 6), (CHR ''7'', 7), (CHR ''8'', 8), (CHR ''9'', 9),
      (CHR ''a'', 10), (CHR ''b'', 11), (CHR ''c'', 12), (CHR ''d'', 13), (CHR ''e'', 14),
      (CHR ''f'', 15),
      (CHR ''A'', 10), (CHR ''B'', 11), (CHR ''C'', 12), (CHR ''D'', 13), (CHR ''E'', 14),
      (CHR ''F'', 15)]"

definition digit_value :: "char \<Rightarrow> nat option" where
  "digit_value c = map_of digit_table c"

definition is_digit :: "nat \<Rightarrow> char \<Rightarrow> bool" where
  "is_digit base c = (case digit_value c of None \<Rightarrow> False | Some d \<Rightarrow> d < base)"

fun digits_value :: "nat \<Rightarrow> nat \<Rightarrow> string \<Rightarrow> nat" where
  "digits_value base acc [] = acc"
| "digits_value base acc (c # cs) =
     digits_value base
       (acc * base + (case digit_value c of None \<Rightarrow> 0 | Some d \<Rightarrow> d)) cs"

definition all_digits :: "nat \<Rightarrow> string \<Rightarrow> bool" where
  "all_digits base ds = (ds \<noteq> [] \<and> list_all (is_digit base) ds)"

definition pow10 :: "int \<Rightarrow> rat" where
  "pow10 k = (if 0 \<le> k then 10 ^ nat k else 1 / 10 ^ nat (- k))"

text \<open>The exponent part that ends a decimal literal; \<open>None\<close> when the rest is malformed.\<close>

definition ExponentPart_opt :: "string \<Rightarrow> int option" where
  "ExponentPart_opt s =
     (case s of
        [] \<Rightarrow> Some 0
      | c # r \<Rightarrow>
          if c = CHR ''e'' \<or> c = CHR ''E'' then
            (case r of
               [] \<Rightarrow> None
             | d # ds \<Rightarrow>
                 if d = CHR ''+'' then
                   (if all_digits 10 ds then Some (int (digits_value 10 0 ds)) else None)
                 else if d = CHR ''-'' then
                   (if all_digits 10 ds then Some (- int (digits_value 10 0 ds)) else None)
                 else if all_digits 10 r then Some (int (digits_value 10 0 r))
                 else None)
          else None)"

text \<open>
  The mathematical value of an unsigned decimal literal that is not \<open>Infinity\<close>:
  \<open>12\<close>, \<open>12.\<close>, \<open>12.5\<close>, \<open>.5\<close>, each with an optional exponent.
\<close>

definition StrUnsignedDecimalLiteral :: "string \<Rightarrow> rat option" where
  "StrUnsignedDecimalLiteral s =
     (let ip = takeWhile (is_digit 10) s;
          r1 = dropWhile (is_digit 10) s;
          fp = (case r1 of [] \<Rightarrow> [] | c # r \<Rightarrow>
                  if c = CHR ''.'' then takeWhile (is_digit 10) r else []);
          r2 = (case r1 of [] \<Rightarrow> [] | c # r \<Rightarrow>
                  if c = CHR ''.'' then dropWhile (is_digit 10) r else r1)
      in if ip = [] \<and> fp = [] then None
         else (case ExponentPart_opt r2 of
                 None \<Rightarrow> None
               | Some ex \<Rightarrow>
                   Some (of_nat (digits_value 10 0 (ip @ fp)) * pow10 (ex - int (length fp)))))"

definition StrDecimalLiteral :: "string \<Rightarrow> js_number" where
  "StrDecimalLiteral s =
     (let neg = (case s of [] \<Rightarrow> False | c # _ \<Rightarrow> c = CHR ''-'');
          u = (case s of [] \<Rightarrow> [] | c # r \<Rightarrow>
                 if c = CHR ''+'' \<or> c = CHR ''-'' then r else s)
      in if u = ''Infinity'' then (if neg then NegInfinity else PosInfinity)
         else (case StrUnsignedDecimalLiteral u of
                 None \<Rightarrow> NaN
               | Some mv \<Rightarrow> to_double (if neg then - mv else mv)))"

text \<open>\<open>0b\<close>, \<open>0o\<close> and \<open>0x\<close> integer literals (either case of the letter), unsigned.\<close>

definition NonDecimalIntegerLiteral :: "string \<Rightarrow> nat option" where
  "NonDecimalIntegerLiteral s =
     (case s of
        z # x # ds \<Rightarrow>
          if z \<noteq> CHR ''0'' then None
          else if x = CHR ''b'' \<or> x = CHR ''B'' then
            (if all_digits 2 ds then Some (digits_value 2 0 ds) else None)
          else if x = CHR ''o'' \<or> x = CHR ''O'' then
            (if all_digits 8 ds then Some (digits_value 8 0 ds) else None)
          else if x = CHR ''x'' \<or> x = CHR ''X'' then
            (if all_digits 16 ds then Some (digits_value 16 0 ds) else None)
          else None
      | _ \<Rightarrow> None)"

definition Number_js :: "string \<Rightarrow> js_number" where
  "Number_js s =
     (let t = trim s in
      if t = [] then Finite 0
      else (case NonDecimalIntegerLiteral t of
              Some n \<Rightarrow> to_double (of_nat n)
            | None \<Rightarrow> StrDecimalLiteral t))"

section \<open>The configuration module\<close>

datatype HyperliquidEnvironment = Mainnet | Testnet

record RiskConfig =
  minPositionUsd :: js_number
  copyRatio :: js_number
  maxLeverage :: js_number
  maxNotionalUsd :: js_number
  inverse :: bool
  maxSlippageBps :: js_number

record CopyTradingConfig =
  environment :: HyperliquidEnvironment
  leaderAddress :: string
  followerPrivateKey :: string
  followerVaultAddress :: "string option"
  syncIntervalMs :: js_number
  reconciliationIntervalMs :: js_number
  refreshAccountIntervalMs :: js_number
  websocketAggregateFills :: bool
  risk :: RiskConfig

text \<open>
  \<open>normalizeEnvironment\<close>: \<open>!raw\<close> holds for \<open>undefined\<close> and for the empty string;
  otherwise the lowercased, trimmed value is compared with \<open>"testnet"\<close>.
\<close>

definition normalizeEnvironment :: "string option \<Rightarrow> HyperliquidEnvironment" where
  "normalizeEnvironment raw =
     (case raw of
        None \<Rightarrow> Mainnet
      | Some r \<Rightarrow>
          if r = [] then Mainnet
          else
            let v = trim (toLowerCase r) in
            if v = ''testnet'' then Testnet else Mainnet)"

text \<open>A thrown JavaScript \<open>Error\<close>, by its message.\<close>

datatype js_error = Error string

text \<open>\<open>process.env\<close>: a variable is a string or is absent.\<close>

type_synonym process_env = "string \<rightharpoonup> string"

text \<open>\<open>a ?? b\<close> on a possibly undefined string: \<open>b\<close> only when \<open>a\<close> is undefined.\<close>

definition nullish :: "string option \<Rightarrow> string \<Rightarrow> string" where
  "nullish a b = (case a of None \<Rightarrow> b | Some v \<Rightarrow> v)"

text \<open>The same operator when the right-hand side may be undefined as well.\<close>

definition nullish_opt :: "string option \<Rightarrow> string option \<Rightarrow> string option" where
  "nullish_opt a b = (case a of None \<Rightarrow> b | Some v \<Rightarrow> Some v)"

text \<open>
  \<open>loadConfig\<close>. The two \<open>throw\<close> statements are the \<open>Inl\<close> results; \<open>!x\<close> on a
  possibly undefined string holds when it is undefined or empty. The default of
  \<open>RECONCILIATION_INTERVAL_MS\<close> is \<open>String(syncIntervalMs)\<close> converted back by
  \<open>Number\<close>, which gives \<open>syncIntervalMs\<close> again; the model takes that number directly.
  The four \<open>console.log\<close> lines write to standard output only and are left out.
\<close>

definition risk_section :: "process_env \<Rightarrow> RiskConfig" where
  "risk_section env =
     (let minPositionUsd' = Number_js (nullish (env ''MIN_POSITION_USD'') ''40'');
          copyRatio' = Number_js (nullish (env ''COPY_RATIO'') ''1'');
          maxLeverage' = Number_js (nullish (env ''MAX_LEVERAGE'') ''25'');
          maxNotionalUsd' = Number_js (nullish (env ''MAX_NOTIONAL_USD'') ''1000000'');
          inverse' = (nullish (env ''INVERSE_COPY'') ''false'' = ''true'');
          maxSlippageBps' =
            Number_js
              (nullish (nullish_opt (env ''MAX_SLIPPAGE_BPS'') (env ''SLIPPAGE_BPS'')) ''50'')
      in \<lparr> minPositionUsd = minPositionUsd', copyRatio = copyRatio',
           maxLeverage = maxLeverage', maxNotionalUsd = maxNotionalUsd',
           inverse = inverse', maxSlippageBps = maxSlippageBps' \<rparr>)"

definition loadConfig :: "process_env \<Rightarrow> js_error + CopyTradingConfig" where
  "loadConfig env =
     (let environment' = normalizeEnvironment (env ''HYPERLIQUID_ENVIRONMENT'');
          followerVaultAddress' = env ''FOLLOWER_VAULT_ADDRESS''
      in
      case env ''LEADER_ADDRESS'' of
        None \<Rightarrow> Inl (Error ''LEADER_ADDRESS is required'')
      | Some leaderAddress' \<Rightarrow>
          if leaderAddress' = [] then Inl (Error ''LEADER_ADDRESS is required'')
          else
            (case env ''FOLLOWER_PRIVATE_KEY'' of
               None \<Rightarrow> Inl (Error ''FOLLOWER_PRIVATE_KEY is required'')
             | Some followerPrivateKey' \<Rightarrow>
                 if followerPrivateKey' = [] then
                   Inl (Error ''FOLLOWER_PRIVATE_KEY is required'')
                 else
                   let risk' = risk_section env;
                       syncIntervalMs' =
                         Number_js (nullish (env ''SYNC_INTERVAL_MS'') ''60000'');
                       reconciliationIntervalMs' =
                         (case env ''RECONCILIATION_INTERVAL_MS'' of
                            Some v \<Rightarrow> Number_js v
                          | None \<Rightarrow> syncIntervalMs');
                       refreshAccountIntervalMs' =
                         Number_js (nullish (env ''REFRESH_ACCOUNT_INTERVAL_MS'') ''300000'');
                       websocketAggregateFills' =
                         (nullish (env ''WEBSOCKET_AGGREGATE_FILLS'') ''true'' = ''true'')
                   in Inr \<lparr> environment = environment',
                             leaderAddress = leaderAddress',
                             followerPrivateKey = followerPrivateKey',
                             followerVaultAddress = followerVaultAddress',
                             syncIntervalMs = syncIntervalMs',
                             reconciliationIntervalMs = reconciliationIntervalMs',
                             refreshAccountIntervalMs = refreshAccountIntervalMs',
                             websocketAggregateFills = websocketAggregateFills',
                             risk = risk' \<rparr>))"

section \<open>The entry point \<open>index.ts\<close>\<close>

subsection \<open>Calls, events and control flow\<close>

text \<open>
  What a caller observes of a call: it returns (an awaited promise is fulfilled), it
  throws (the promise is rejected), or it never returns (the promise never settles).
\<close>

datatype 'a outcome = Ok 'a | Throws js_error | Never

text \<open>
  The services \<open>main\<close> builds and drives are opaque here: each call into them is
  named, and its outcome is an input of the model.
\<close>

datatype service_call =
    CreateHyperliquidClients
  | NewLeaderState
  | NewFollowerState
  | NewMarketMetadataService
  | NewTradeExecutor
  | NewReconciler
  | NewSubscriptionService
  | SubscriptionsStart
  | ReconcileOnce
  | ReconcilerStart
  | SyncWithLeader
  | SubscriptionsStop
  | ReconcilerStop
  | WsTransportClose

datatype signal = SIGINT | SIGTERM

datatype event =
    Call service_call
  | Done service_call
  | Raised service_call js_error
  | LoggerError string js_error
  | LoggerWarn string
  | PollLoopStarted
  | HandlerRegistered signal
  | DelayFor js_number
  | ProcessExit nat

text \<open>
  How a piece of an \<open>async\<close> function ends: control goes on to the next statement, an
  exception propagates, the function waits forever, or the process has exited.
\<close>

datatype flow = Next | Thrown js_error | Blocked | Exited nat

type_synonym run = "event list \<times> flow"

definition andThen :: "run \<Rightarrow> run \<Rightarrow> run" where
  "andThen a b = (case snd a of Next \<Rightarrow> (fst a @ fst b, snd b) | _ \<Rightarrow> a)"

text \<open>A block of statements, in order.\<close>

fun seq :: "run list \<Rightarrow> run" where
  "seq [] = ([], Next)"
| "seq (a # rest) = andThen a (seq rest)"

text \<open>A plain call \<open>c()\<close> or \<open>await c()\<close>.\<close>

definition call :: "service_call \<Rightarrow> unit outcome \<Rightarrow> run" where
  "call c oc =
     (case oc of
        Ok _ \<Rightarrow> ([Call c, Done c], Next)
      | Throws e \<Rightarrow> ([Call c, Raised c e], Thrown e)
      | Never \<Rightarrow> ([Call c], Blocked))"

text \<open>
  \<open>await c().catch(handler)\<close>: a rejection runs the handler instead of propagating. The
  callee is taken to return a promise, as the \<open>.catch\<close> on its result presupposes.
\<close>

definition call_catch :: "service_call \<Rightarrow> unit outcome \<Rightarrow> (js_error \<Rightarrow> run) \<Rightarrow> run" where
  "call_catch c oc handler =
     (case oc of
        Ok _ \<Rightarrow> ([Call c, Done c], Next)
      | Throws e \<Rightarrow> andThen ([Call c, Raised c e], Next) (handler e)
      | Never \<Rightarrow> ([Call c], Blocked))"

text \<open>\<open>try { body } catch (error) { handler }\<close>.\<close>

definition try_catch :: "run \<Rightarrow> (js_error \<Rightarrow> run) \<Rightarrow> run" where
  "try_catch body handler =
     (case snd body of
        Thrown e \<Rightarrow> andThen (fst body, Next) (handler e)
      | _ \<Rightarrow> body)"

text \<open>
  The imported \<open>logger\<close> (\<open>utils/logger.js\<close>) writes a line and returns;
  \<open>process.exit\<close> ends the process; \<open>delay\<close> is the promise form of \<open>setTimeout\<close>,
  which is fulfilled once the time has passed.
\<close>

definition logger_error :: "string \<Rightarrow> js_error \<Rightarrow> run" where
  "logger_error msg e = ([LoggerError msg e], Next)"


definition process_exit :: "nat \<Rightarrow> run" where
  "process_exit code = ([ProcessExit code], Exited code)"

definition delay :: "js_number \<Rightarrow> run" where
  "delay ms = ([DelayFor ms], Next)"

subsection \<open>\<open>main\<close>, the poll loop and the shutdown handler\<close>

text \<open>
  \<open>main\<close>, with \<open>process.env\<close> as it stands after \<open>dotenv.config()\<close>. The body of the
  \<open>try\<close> is the list of calls in source order (\<open>subscriptions.start()\<close> and
  \<open>reconciler.reconcileOnce()\<close> are awaited, \<open>reconciler.start()\<close> is not);
  \<open>void pollLoop()\<close> and the two \<open>process.on\<close> registrations end it. What is passed
  to the constructors is not modelled.
\<close>

definition main :: "process_env \<Rightarrow> (service_call \<Rightarrow> unit outcome) \<Rightarrow> run" where
  "main env ext =
     try_catch
       (case loadConfig env of
          Inl e \<Rightarrow> ([], Thrown e)
        | Inr config \<Rightarrow>
            seq [call CreateHyperliquidClients (ext CreateHyperliquidClients),
                 call NewLeaderState (ext NewLeaderState),
                 call NewFollowerState (ext NewFollowerState),
                 call NewMarketMetadataService (ext NewMarketMetadataService),
                 call NewTradeExecutor (ext NewTradeExecutor),
                 call NewReconciler (ext NewReconciler),
                 call NewSubscriptionService (ext NewSubscriptionService),
                 call SubscriptionsStart (ext SubscriptionsStart),
                 call ReconcileOnce (ext ReconcileOnce),
                 call ReconcilerStart (ext ReconcilerStart),
                 ([PollLoopStarted], Next),
                 ([HandlerRegistered SIGINT], Next),
                 ([HandlerRegistered SIGTERM], Next)])
       (\<lambda>error. seq [logger_error ''Fatal error in copy trading agent'' error,
                     process_exit 1])"

text \<open>
  One turn of the \<open>while (true)\<close> loop of \<open>pollLoop\<close>, given the outcome of this turn's
  \<open>tradeExecutor.syncWithLeader()\<close>: the awaited sync with its \<open>.catch\<close>, then the
  awaited \<open>delay(config.refreshAccountIntervalMs)\<close>.
\<close>

definition pollLoop_iteration :: "CopyTradingConfig \<Rightarrow> unit outcome \<Rightarrow> run" where
  "pollLoop_iteration config sync =
     seq [call_catch SyncWithLeader sync
            (\<lambda>error. logger_error ''Periodic sync failed'' error),
          delay (refreshAccountIntervalMs config)]"

text \<open>
  The loop never leaves by itself, so it is run for a given number of turns: \<open>Next\<close>
  after them says that the loop enters its next turn. \<open>syncs i\<close> is the outcome of the
  sync of turn \<open>i\<close>. The loop is started as \<open>void pollLoop()\<close>: a \<open>Thrown\<close> flow would
  be an unhandled rejection.
\<close>

fun pollLoop :: "nat \<Rightarrow> CopyTradingConfig \<Rightarrow> (nat \<Rightarrow> unit outcome) \<Rightarrow> nat \<Rightarrow> run" where
  "pollLoop 0 config syncs i = ([], Next)"
| "pollLoop (Suc n) config syncs i =
     andThen (pollLoop_iteration config (syncs i)) (pollLoop n config syncs (Suc i))"




subsection \<open>The override of \<open>TradeExecutor.prototype.syncWithLeader\<close>\<close>

text \<open>
  Modelled from the spec: the classes \<open>LeaderState\<close>, \<open>FollowerState\<close> and
  \<open>TradeExecutor\<close> are not among the sources. A position is the record of section 3 of
  the specification, a state store maps an asset to its position, and the orders sent to
  the exchange are kept in a list.
\<close>

record Position =
  signedSize :: rat
  entryPrice :: rat
  leverage :: rat

record DesiredOrder =
  order_asset :: string
  targetSize :: rat

record world =
  leaderState :: "string \<rightharpoonup> Position"
  followerState :: "string \<rightharpoonup> Position"
  submittedOrders :: "DesiredOrder list"
  logLines :: "string list"

datatype js_value = Undefined | Null | Bool bool | Num js_number | Str string

text \<open>
  The receiver \<open>this\<close> of the method, as far as the override reads it: \<open>this\<close> may be
  undefined; \<open>this.logger\<close> may be falsy or truthy; the \<open>info\<close> of a truthy one may be
  absent, something that is not a function, or a function. A logger's \<open>info\<close> takes
  the message and the lines written so far, gives the lines afterwards, and may throw.
  Reading a property has no effect of its own.
\<close>

datatype info_property =
    InfoAbsent
  | InfoNotAFunction
  | InfoFunction "string \<Rightarrow> string list \<Rightarrow> string list \<times> js_error option"

datatype logger_property = LoggerFalsy | LoggerObject info_property

record TradeExecutor =
  executor_risk :: RiskConfig
  logger :: logger_property

datatype receiver = ThisUndefined | ThisObject TradeExecutor

type_synonym js_method = "receiver \<Rightarrow> js_value list \<Rightarrow> world \<Rightarrow> js_value outcome \<times> world"

definition disabled_message :: string where
  "disabled_message = ''syncWithLeader disabled (no-op, copy-only mode, no drift rebalancing)''"

text \<open>
  The \<open>try\<close> block of the override: the world it leaves, and the exception if one
  was raised inside it (reading \<open>this.logger\<close> of an undefined \<open>this\<close>, or a throwing
  \<open>info\<close>).
\<close>

definition syncWithLeader_try :: "receiver \<Rightarrow> world \<Rightarrow> world \<times> js_error option" where
  "syncWithLeader_try this w =
     (case this of
        ThisUndefined \<Rightarrow> (w, Some (Error ''TypeError: cannot read properties of undefined''))
      | ThisObject ex \<Rightarrow>
          (case logger ex of
             LoggerFalsy \<Rightarrow> (w, None)
           | LoggerObject InfoAbsent \<Rightarrow> (w, None)
           | LoggerObject InfoNotAFunction \<Rightarrow> (w, None)
           | LoggerObject (InfoFunction info) \<Rightarrow>
               (case info disabled_message (logLines w) of
                  (lines, r) \<Rightarrow> (w\<lparr>logLines := lines\<rparr>, r))))"

text \<open>
  The override itself: an \<open>async function ()\<close> that runs the \<open>try\<close> block, drops
  whatever it raises in the empty \<open>catch\<close>, and returns.
\<close>

definition syncWithLeader_override :: js_method where
  "syncWithLeader_override this args w =
     (case syncWithLeader_try this w of
        (w', Some e) \<Rightarrow> (Ok Undefined, w')
      | (w', None) \<Rightarrow> (Ok Undefined, w'))"

text \<open>
  The prototype of \<open>TradeExecutor\<close> holds the method; the last statement of the module
  assigns the override to it, whatever the class defined. A call
  \<open>tradeExecutor.syncWithLeader(...)\<close> looks the method up in the prototype (the class
  is taken to declare it as a method, not as a field of each instance). The callback and
  the poll loop of \<open>main\<close> make their calls after an \<open>await\<close>, hence after the
  assignment.
\<close>

record TradeExecutor_prototype =
  syncWithLeader_method :: js_method

definition module_init :: "TradeExecutor_prototype \<Rightarrow> TradeExecutor_prototype" where
  "module_init proto = proto\<lparr>syncWithLeader_method := syncWithLeader_override\<rparr>"

definition invoke_syncWithLeader ::
    "TradeExecutor_prototype \<Rightarrow> receiver \<Rightarrow> js_value list \<Rightarrow> world \<Rightarrow> js_value outcome \<times> world" where
  "invoke_syncWithLeader proto this args w = syncWithLeader_method proto this args w"

text \<open>
  The executor \<open>main\<close> constructs from the loaded configuration; whether the class keeps
  a \<open>logger\<close> property, and which, is an input.
\<close>

definition new_TradeExecutor :: "CopyTradingConfig \<Rightarrow> logger_property \<Rightarrow> receiver" where
  "new_TradeExecutor config lg = ThisObject \<lparr>executor_risk = risk config, logger = lg\<rparr>"

text \<open>
  The periodic sync of \<open>pollLoop\<close>, \<open>tradeExecutor.syncWithLeader()\<close>, once the module
  is initialised.
\<close>

definition periodic_sync ::
    "TradeExecutor_prototype \<Rightarrow> CopyTradingConfig \<Rightarrow> logger_property \<Rightarrow> world \<Rightarrow>
     js_value outcome \<times> world" where
  "periodic_sync proto config lg w =
     invoke_syncWithLeader (module_init proto) (new_TradeExecutor config lg) [] w"

text \<open>
  A fill of the leader, and the callback \<open>() => tradeExecutor.syncWithLeader()\<close> that
  \<open>main\<close> hands to \<open>SubscriptionService\<close>: it has no parameter, so whatever the
  service passes is dropped.
\<close>

record fill_event =
  fill_asset :: string
  signedDelta :: rat
  fill_price :: rat

definition leader_fill_callback ::
    "TradeExecutor_prototype \<Rightarrow> receiver \<Rightarrow> fill_event \<Rightarrow> world \<Rightarrow> js_value outcome \<times> world" where
  "leader_fill_callback proto tradeExecutor event w =
     invoke_syncWithLeader (module_init proto) tradeExecutor [] w"

text \<open>
  Modelled from the spec: \<open>LeaderState.applyFill\<close> is not among the sources. Section 4.1
  says that it adds the delta to the existing size, an absent position counting as size
  zero; \<open>applies_fill ev before after\<close> holds when \<open>after\<close> shows that for the asset
  of \<open>ev\<close>.
\<close>

definition size_of :: "Position option \<Rightarrow> rat" where
  "size_of p = (case p of None \<Rightarrow> 0 | Some q \<Rightarrow> signedSize q)"

definition applies_fill ::
    "fill_event \<Rightarrow> (string \<rightharpoonup> Position) \<Rightarrow> (string \<rightharpoonup> Position) \<Rightarrow> bool" where
  "applies_fill ev before after =
     (size_of (after (fill_asset ev)) = size_of (before (fill_asset ev)) + signedDelta ev)"

subsection \<open>Observations on a run\<close>

text \<open>
  Corrective trading shows as an order sent to the exchange or as a change of the
  follower's positions.
\<close>

definition performs_corrective_trading :: "world \<Rightarrow> world \<Rightarrow> bool" where
  "performs_corrective_trading w w' =
     (\<not> (submittedOrders w' = submittedOrders w \<and> followerState w' = followerState w))"

section \<open>Concrete inputs\<close>

definition env_minimal :: process_env where
  "env_minimal = [''LEADER_ADDRESS'' \<mapsto> ''0xabc'', ''FOLLOWER_PRIVATE_KEY'' \<mapsto> ''0xdef'']"

definition env_negative_ratio :: process_env where
  "env_negative_ratio =
     [''LEADER_ADDRESS'' \<mapsto> ''0xabc'', ''FOLLOWER_PRIVATE_KEY'' \<mapsto> ''0xdef'',
      ''COPY_RATIO'' \<mapsto> ''-1'']"

definition env_both_slippages :: process_env where
  "env_both_slippages =
     [''LEADER_ADDRESS'' \<mapsto> ''0xabc'', ''FOLLOWER_PRIVATE_KEY'' \<mapsto> ''0xdef'',
      ''MAX_SLIPPAGE_BPS'' \<mapsto> ''30'', ''SLIPPAGE_BPS'' \<mapsto> ''70'']"

text \<open>The configuration that \<open>env_minimal\<close> yields: every default of \<open>loadConfig\<close>.\<close>

definition default_config :: CopyTradingConfig where
  "default_config =
     \<lparr> environment = Mainnet,
       leaderAddress = ''0xabc'',
       followerPrivateKey = ''0xdef'',
       followerVaultAddress = None,
       syncIntervalMs = Finite 60000,
       reconciliationIntervalMs = Finite 60000,
       refreshAccountIntervalMs = Finite 300000,
       websocketAggregateFills = True,
       risk = \<lparr> minPositionUsd = Finite 40, copyRatio = Finite 1, maxLeverage = Finite 25,
                maxNotionalUsd = Finite 1000000, inverse = False,
                maxSlippageBps = Finite 50 \<rparr> \<rparr>"

definition all_ok :: "service_call \<Rightarrow> unit outcome" where
  "all_ok c = Ok ()"


text \<open>Service outcomes in which \<open>reconciler.reconcileOnce()\<close> never settles, or is rejected.\<close>

definition hanging_reconcile :: "service_call \<Rightarrow> unit outcome" where
  "hanging_reconcile c = (if c = ReconcileOnce then Never else Ok ())"

definition failing_reconcile :: "service_call \<Rightarrow> unit outcome" where
  "failing_reconcile c = (if c = ReconcileOnce then Throws (Error ''HTTP 429'') else Ok ())"

definition flaky_syncs :: "nat \<Rightarrow> unit outcome" where
  "flaky_syncs i = (if i = 0 then Throws (Error ''HTTP 502'') else Ok ())"

definition fill_btc :: fill_event where
  "fill_btc = \<lparr>fill_asset = ''BTC'', signedDelta = 1, fill_price = 50000\<rparr>"

definition fill_eth :: fill_event where
  "fill_eth = \<lparr>fill_asset = ''ETH'', signedDelta = - 5, fill_price = 3000\<rparr>"

definition empty_world :: world where
  "empty_world = \<lparr>leaderState = Map.empty, followerState = Map.empty,
                   submittedOrders = [], logLines = []\<rparr>"

definition quiet_executor :: receiver where
  "quiet_executor = new_TradeExecutor default_config LoggerFalsy"

text \<open>An executor whose logger throws on every call.\<close>

definition throwing_info :: "string \<Rightarrow> string list \<Rightarrow> string list \<times> js_error option" where
  "throwing_info msg lines = (lines, Some (Error ''EPIPE''))"

definition throwing_logger_executor :: receiver where
  "throwing_logger_executor =
     new_TradeExecutor default_config (LoggerObject (InfoFunction throwing_info))"

text \<open>A class whose own \<open>syncWithLeader\<close> sends an order on every call.\<close>

definition trading_prototype :: TradeExecutor_prototype where
  "trading_prototype =
     \<lparr>syncWithLeader_method =
        (\<lambda>this args w.
           (Ok Undefined,
            w\<lparr>submittedOrders := \<lparr>order_asset = ''BTC'', targetSize = 1\<rparr> # submittedOrders w\<rparr>))\<rparr>"

section \<open>Properties of the configuration module\<close>

declare bitlen.simps [simp del]

lemmas Number_js_unfold =
  Number_js_def trim_def is_StrWhiteSpaceChar_def NonDecimalIntegerLiteral_def
  all_digits_def is_digit_def digit_value_def digit_table_def StrDecimalLiteral_def
  StrUnsignedDecimalLiteral_def ExponentPart_opt_def pow10_def
  to_double_def floor_log2_def pow2_def round_half_even_def bitlen.simps Let_def

lemma Number_js_1: "Number_js ''1'' = Finite 1"
  by (simp add: Number_js_unfold)

lemma Number_js_minus_1: "Number_js ''-1'' = Finite (- 1)"
  by (simp add: Number_js_unfold)

lemma Number_js_25: "Number_js ''25'' = Finite 25"
  by (simp add: Number_js_unfold)

lemma Number_js_30: "Number_js ''30'' = Finite 30"
  by (simp add: Number_js_unfold)

lemma Number_js_40: "Number_js ''40'' = Finite 40"
  by (simp add: Number_js_unfold)

lemma Number_js_50: "Number_js ''50'' = Finite 50"
  by (simp add: Number_js_unfold)

lemma Number_js_60000: "Number_js ''60000'' = Finite 60000"
  by (simp add: Number_js_unfold)

lemma Number_js_300000: "Number_js ''300000'' = Finite 300000"
  by (simp add: Number_js_unfold)

lemma Number_js_1000000: "Number_js ''1000000'' = Finite 1000000"
  by (simp add: Number_js_unfold)

lemmas Number_js_values =
  Number_js_1 Number_js_minus_1 Number_js_25 Number_js_30 Number_js_40 Number_js_50
  Number_js_60000 Number_js_300000 Number_js_1000000

lemma normalizeEnvironment_None: "normalizeEnvironment None = Mainnet"
  by (simp add: normalizeEnvironment_def)

lemma loadConfig_defaults: "loadConfig env_minimal = Inr default_config"
  by (simp add: loadConfig_def env_minimal_def default_config_def risk_section_def
        nullish_def nullish_opt_def normalizeEnvironment_None Number_js_values Let_def)

lemma loadConfig_both_slippages:
  "loadConfig env_both_slippages =
     Inr (default_config\<lparr>risk := (risk default_config)\<lparr>maxSlippageBps := Finite 30\<rparr>\<rparr>)"
  by (simp add: loadConfig_def env_both_slippages_def default_config_def risk_section_def
        nullish_def nullish_opt_def normalizeEnvironment_None Number_js_values Let_def)

lemma loadConfig_negative_ratio:
  "loadConfig env_negative_ratio =
     Inr (default_config\<lparr>risk := (risk default_config)\<lparr>copyRatio := Finite (- 1)\<rparr>\<rparr>)"
  by (simp add: loadConfig_def env_negative_ratio_def default_config_def risk_section_def
        nullish_def nullish_opt_def normalizeEnvironment_None Number_js_values Let_def)

lemma is_StrWhiteSpaceChar_code:
  "is_StrWhiteSpaceChar c \<longleftrightarrow> (of_char c :: nat) \<in> {9, 10, 11, 12, 13, 32, 160}"
proof -
  have eq: "\<And>d. (c = d) = ((of_char c :: nat) = of_char d)" by simp
  show ?thesis unfolding is_StrWhiteSpaceChar_def eq[of "CHR 0x09"] eq[of "CHR 0x0A"]
      eq[of "CHR 0x0B"] eq[of "CHR 0x0C"] eq[of "CHR 0x0D"] eq[of "CHR 0x20"] eq[of "CHR 0xA0"]
    by simp
qed

lemma ws_toLowerCase_char:
  "is_StrWhiteSpaceChar (toLowerCase_char c) = is_StrWhiteSpaceChar c"
proof -
  have lt: "(of_char c :: nat) < 256" by simp
  show ?thesis
    unfolding is_StrWhiteSpaceChar_code toLowerCase_char_def Let_def
    using lt by (auto simp: of_char_of)
qed

lemma trim_sandwich:
  assumes "list_all is_StrWhiteSpaceChar a" "list_all is_StrWhiteSpaceChar b"
    and "m \<noteq> []" "\<not> is_StrWhiteSpaceChar (hd m)" "\<not> is_StrWhiteSpaceChar (last m)"
  shows "trim (a @ m @ b) = m"
proof -
  have 1: "dropWhile is_StrWhiteSpaceChar (a @ m @ b) = m @ b"
    using assms by (cases m) (auto simp: list_all_iff dropWhile_append)
  have 2: "dropWhile is_StrWhiteSpaceChar (rev b @ rev m) = rev m"
    using assms by (cases "rev m") (auto simp: list_all_iff dropWhile_append last_rev hd_rev)
  show ?thesis by (simp add: trim_def 1 2)
qed

lemma trim_decompose:
  "\<exists>a b. s = a @ trim s @ b \<and> list_all is_StrWhiteSpaceChar a \<and> list_all is_StrWhiteSpaceChar b"
proof -
  let ?P = is_StrWhiteSpaceChar
  let ?r = "dropWhile ?P s"
  have "s = takeWhile ?P s @ ?r" by simp
  moreover have "rev ?r = takeWhile ?P (rev ?r) @ dropWhile ?P (rev ?r)" by simp
  then have "?r = rev (dropWhile ?P (rev ?r)) @ rev (takeWhile ?P (rev ?r))"
    by (metis rev_append rev_rev_ident)
  ultimately have "s = takeWhile ?P s @ trim s @ rev (takeWhile ?P (rev ?r))"
    by (simp add: trim_def)
  moreover have "list_all ?P (takeWhile ?P s)"
    by (simp add: list_all_iff) (meson set_takeWhileD)
  moreover have "list_all ?P (rev (takeWhile ?P (rev ?r)))"
    by (simp add: list_all_iff) (meson set_takeWhileD)
  ultimately show ?thesis by blast
qed

lemma trim_toLowerCase_testnet_iff:
  "trim (toLowerCase r) = ''testnet'' \<longleftrightarrow>
     (\<exists>a m b. r = a @ m @ b \<and> list_all is_StrWhiteSpaceChar a \<and>
              list_all is_StrWhiteSpaceChar b \<and> toLowerCase m = ''testnet'')"
proof
  assume L: "trim (toLowerCase r) = ''testnet''"
  obtain a b where ab: "toLowerCase r = a @ ''testnet'' @ b"
      "list_all is_StrWhiteSpaceChar a" "list_all is_StrWhiteSpaceChar b"
    using trim_decompose[of "toLowerCase r"] L by auto
  define a' where "a' = take (length a) r"
  define m' where "m' = take 7 (drop (length a) r)"
  define b' where "b' = drop (length a + 7) r"
  have len: "length r = length a + 7 + length b"
    using arg_cong[OF ab(1), of length] by (simp add: toLowerCase_def)
  have r: "r = a' @ m' @ b'"
    unfolding a'_def m'_def b'_def
    by (metis append_take_drop_id drop_drop add.commute)
  have whole: "map toLowerCase_char a' @ (map toLowerCase_char m' @ map toLowerCase_char b') =
      a @ (''testnet'' @ b)"
    using ab(1) r by (simp add: toLowerCase_def)
  have la: "length (map toLowerCase_char a') = length a"
    using len by (simp add: a'_def)
  have lm: "length (map toLowerCase_char m') = length ''testnet''"
    using len by (simp add: m'_def)
  from whole la have pa: "map toLowerCase_char a' = a"
    and rest: "map toLowerCase_char m' @ map toLowerCase_char b' = ''testnet'' @ b"
    using append_eq_append_conv by blast+
  from rest lm have pm: "map toLowerCase_char m' = ''testnet''"
    and pb: "map toLowerCase_char b' = b"
    using append_eq_append_conv by blast+
  note parts = pa pm pb
  have wa: "list_all is_StrWhiteSpaceChar a'"
    using ab(2) unfolding pa[symmetric] by (simp add: list_all_iff ws_toLowerCase_char)
  have wb: "list_all is_StrWhiteSpaceChar b'"
    using ab(3) unfolding pb[symmetric] by (simp add: list_all_iff ws_toLowerCase_char)
  have lm': "toLowerCase m' = ''testnet''"
    using pm by (simp only: toLowerCase_def)
  show "\<exists>a m b. r = a @ m @ b \<and> list_all is_StrWhiteSpaceChar a \<and>
              list_all is_StrWhiteSpaceChar b \<and> toLowerCase m = ''testnet''"
    by (intro exI[of _ a'] exI[of _ m'] exI[of _ b'] conjI r wa wb lm')
next
  assume "\<exists>a m b. r = a @ m @ b \<and> list_all is_StrWhiteSpaceChar a \<and>
              list_all is_StrWhiteSpaceChar b \<and> toLowerCase m = ''testnet''"
  then obtain a m b where r: "r = a @ m @ b" and a: "list_all is_StrWhiteSpaceChar a"
    and b: "list_all is_StrWhiteSpaceChar b" and m: "toLowerCase m = ''testnet''"
    by (elim exE conjE)
  have whole: "toLowerCase r = toLowerCase a @ ''testnet'' @ toLowerCase b"
    using r m by (simp add: toLowerCase_def)
  have wa: "list_all is_StrWhiteSpaceChar (toLowerCase a)"
    using a by (simp add: list_all_iff toLowerCase_def ws_toLowerCase_char)
  have wb: "list_all is_StrWhiteSpaceChar (toLowerCase b)"
    using b by (simp add: list_all_iff toLowerCase_def ws_toLowerCase_char)
  have ends: "''testnet'' \<noteq> []" "\<not> is_StrWhiteSpaceChar (hd ''testnet'')"
      "\<not> is_StrWhiteSpaceChar (last ''testnet'')"
    by (simp_all add: is_StrWhiteSpaceChar_def)
  show "trim (toLowerCase r) = ''testnet''"
    unfolding whole by (rule trim_sandwich[OF wa wb ends])
qed

text \<open>
  Claim C9. \<open>normalizeEnvironment\<close> is total and has no throwing branch. It returns
  \<open>testnet\<close> exactly when its argument is defined and the lowercased, trimmed value is
  \<open>"testnet"\<close>, that is, when the argument is the word \<open>testnet\<close> in any mix of cases
  with white space around it; for every other argument, \<open>undefined\<close> and the empty
  string among them, it returns \<open>main\<close>.
\<close>

theorem normalizeEnvironment_testnet_iff:
  "normalizeEnvironment raw =
     (if (\<exists>r. raw = Some r \<and> trim (toLowerCase r) = ''testnet'') then Testnet else Mainnet) \<and>
   (normalizeEnvironment raw = Testnet \<longleftrightarrow>
      (\<exists>a m b. raw = Some (a @ m @ b) \<and> list_all is_StrWhiteSpaceChar a \<and>
               list_all is_StrWhiteSpaceChar b \<and> toLowerCase m = ''testnet'')) \<and>
   normalizeEnvironment None = Mainnet \<and>
   normalizeEnvironment (Some []) = Mainnet"
proof -
  have eq: "normalizeEnvironment raw =
     (if (\<exists>r. raw = Some r \<and> trim (toLowerCase r) = ''testnet'') then Testnet else Mainnet)"
    by (cases raw) (auto simp: normalizeEnvironment_def Let_def toLowerCase_def trim_def)
  have "(normalizeEnvironment raw = Testnet) =
          (\<exists>r. raw = Some r \<and> trim (toLowerCase r) = ''testnet'')"
    unfolding eq by simp
  also have "\<dots> = (\<exists>a m b. raw = Some (a @ m @ b) \<and> list_all is_StrWhiteSpaceChar a \<and>
               list_all is_StrWhiteSpaceChar b \<and> toLowerCase m = ''testnet'')"
    unfolding trim_toLowerCase_testnet_iff by blast
  finally show ?thesis
    using eq by (simp add: normalizeEnvironment_def)
qed

theorem normalizeEnvironment_testnet_witness:
  "normalizeEnvironment (Some ''  TestNet '') = Testnet \<and>
   normalizeEnvironment (Some ''testnet2'') = Mainnet"
proof -
  have lower: "toLowerCase ''  TestNet '' = ''  testnet ''" "toLowerCase ''testnet2'' = ''testnet2''"
    by code_simp+
  have "trim ''  testnet '' = ''testnet''" "trim ''testnet2'' = ''testnet2''"
    by (simp_all add: trim_def is_StrWhiteSpaceChar_def)
  with lower show ?thesis
    using normalizeEnvironment_testnet_iff[of "Some ''  TestNet ''"]
      normalizeEnvironment_testnet_iff[of "Some ''testnet2''"]
    by simp
qed

lemma loadConfig_Inr_risk:
  "loadConfig env = Inr cfg \<Longrightarrow> risk cfg = risk_section env"
  by (auto simp: loadConfig_def Let_def split: option.splits if_splits)

text \<open>
  Claim C10. In the risk section that \<open>loadConfig\<close> returns, \<open>maxSlippageBps\<close> is the
  number of \<open>MAX_SLIPPAGE_BPS\<close> when that variable is set, else the number of
  \<open>SLIPPAGE_BPS\<close> when that one is set, else 50; with both set, \<open>MAX_SLIPPAGE_BPS\<close>
  wins.
\<close>

theorem maxSlippageBps_precedence:
  assumes "loadConfig env = Inr cfg"
  shows "maxSlippageBps (risk cfg) =
           (case env ''MAX_SLIPPAGE_BPS'' of
              Some v \<Rightarrow> Number_js v
            | None \<Rightarrow>
                (case env ''SLIPPAGE_BPS'' of
                   Some v \<Rightarrow> Number_js v
                 | None \<Rightarrow> Finite 50))"
  using loadConfig_Inr_risk[OF assms]
  by (simp add: risk_section_def nullish_def nullish_opt_def Number_js_50 split: option.splits)

theorem maxSlippageBps_precedence_witness:
  "loadConfig env_both_slippages =
     Inr (default_config\<lparr>risk := (risk default_config)\<lparr>maxSlippageBps := Finite 30\<rparr>\<rparr>) \<and>
   maxSlippageBps
     (risk (default_config\<lparr>risk := (risk default_config)\<lparr>maxSlippageBps := Finite 30\<rparr>\<rparr>)) =
     Finite 30"
  using maxSlippageBps_precedence[OF loadConfig_both_slippages] loadConfig_both_slippages
  by (simp add: env_both_slippages_def Number_js_30)

text \<open>
  Claim C5, as the code has it. \<open>loadConfig\<close> does not validate \<open>COPY_RATIO\<close>: the
  \<open>copyRatio\<close> it returns is \<open>Number(COPY_RATIO ?? "1")\<close>, so \<open>copyRatio >= 0\<close> holds
  exactly when the variable is unset (the ratio is then 1) or its value converts to a
  number that is at least 0.
\<close>

theorem copyRatio_unvalidated:
  assumes "loadConfig env = Inr cfg"
  shows "copyRatio (risk cfg) = Number_js (nullish (env ''COPY_RATIO'') ''1'') \<and>
         (js_ge (copyRatio (risk cfg)) (Finite 0) \<longleftrightarrow>
            (case env ''COPY_RATIO'' of
               None \<Rightarrow> True
             | Some v \<Rightarrow> js_ge (Number_js v) (Finite 0)))"
  using loadConfig_Inr_risk[OF assms]
  by (simp add: risk_section_def nullish_def Number_js_1 split: option.splits)

theorem copyRatio_unvalidated_witness:
  "loadConfig env_minimal = Inr default_config \<and>
   copyRatio (risk default_config) = Finite 1 \<and>
   js_ge (copyRatio (risk default_config)) (Finite 0)"
  using copyRatio_unvalidated[OF loadConfig_defaults] loadConfig_defaults
  by (simp add: env_minimal_def nullish_def Number_js_1)

text \<open>
  Claim C5 as stated fails: with \<open>COPY_RATIO=-1\<close> the configuration is returned and its
  \<open>copyRatio\<close> is \<open>-1\<close>, which is not \<open>>= 0\<close>.
\<close>

theorem copyRatio_negative_counterexample:
  "map_sum id (\<lambda>cfg. copyRatio (risk cfg)) (loadConfig env_negative_ratio) = Inr (Finite (- 1)) \<and>
   js_ge (Finite (- 1)) (Finite 0) = False"
  by (simp add: loadConfig_negative_ratio default_config_def)

section \<open>Properties of the entry point\<close>

subsection \<open>The disabled periodic sync\<close>

lemma invoke_after_module_init:
  "invoke_syncWithLeader (module_init proto) this args w = syncWithLeader_override this args w"
  by (simp add: invoke_syncWithLeader_def module_init_def)

lemma syncWithLeader_override_result:
  "syncWithLeader_override this args w = (Ok Undefined, fst (syncWithLeader_try this w))"
  by (simp add: syncWithLeader_override_def split: prod.splits option.splits)

lemma syncWithLeader_try_lines:
  "fst (syncWithLeader_try this w) =
     w\<lparr>logLines :=
         (case this of
            ThisUndefined \<Rightarrow> logLines w
          | ThisObject ex \<Rightarrow>
              (case logger ex of
                 LoggerObject (InfoFunction info) \<Rightarrow> fst (info disabled_message (logLines w))
               | _ \<Rightarrow> logLines w))\<rparr>"
  by (simp add: syncWithLeader_try_def
           split: receiver.splits logger_property.splits info_property.splits prod.splits)

lemma syncWithLeader_try_frame:
  "leaderState (fst (syncWithLeader_try this w)) = leaderState w"
  "followerState (fst (syncWithLeader_try this w)) = followerState w"
  "submittedOrders (fst (syncWithLeader_try this w)) = submittedOrders w"
  by (simp_all add: syncWithLeader_try_lines)

text \<open>
  Both observations can be made: before the override is assigned, the method of
  \<open>trading_prototype\<close> trades; and a store that received the BTC fill shows it.
\<close>

lemma trading_prototype_trades:
  "performs_corrective_trading empty_world
     (snd (invoke_syncWithLeader trading_prototype quiet_executor [] empty_world))"
  by (simp add: performs_corrective_trading_def invoke_syncWithLeader_def
        trading_prototype_def empty_world_def)

lemma applies_fill_example:
  "applies_fill fill_btc (leaderState empty_world)
     [''BTC'' \<mapsto> \<lparr>signedSize = 1, entryPrice = 50000, leverage = 1\<rparr>]"
  by (simp add: applies_fill_def size_of_def fill_btc_def empty_world_def)

text \<open>
  Claim C3. Once the module has assigned the override, every call of
  \<open>TradeExecutor.syncWithLeader\<close>, for every receiver, every argument list and every
  method the class defined before, is fulfilled with \<open>undefined\<close> (also when the
  receiver is undefined or its logger throws), leaves \<open>LeaderState\<close> and
  \<open>FollowerState\<close> as they were and sends no order: the world changes at most in the
  log, by the one \<open>info\<close> call.
\<close>

theorem syncWithLeader_disabled:
  "fst (invoke_syncWithLeader (module_init proto) this args w) = Ok Undefined \<and>
   leaderState (snd (invoke_syncWithLeader (module_init proto) this args w)) = leaderState w \<and>
   followerState (snd (invoke_syncWithLeader (module_init proto) this args w)) = followerState w \<and>
   submittedOrders (snd (invoke_syncWithLeader (module_init proto) this args w)) =
     submittedOrders w \<and>
   snd (invoke_syncWithLeader (module_init proto) this args w) =
     w\<lparr>logLines :=
         (case this of
            ThisUndefined \<Rightarrow> logLines w
          | ThisObject ex \<Rightarrow>
              (case logger ex of
                 LoggerObject (InfoFunction info) \<Rightarrow> fst (info disabled_message (logLines w))
               | _ \<Rightarrow> logLines w))\<rparr>"
  unfolding invoke_after_module_init syncWithLeader_override_result
  using syncWithLeader_try_lines[of this w] by (simp add: syncWithLeader_try_frame)

theorem syncWithLeader_disabled_witness:
  "invoke_syncWithLeader (module_init trading_prototype) throwing_logger_executor
     [Num (Finite 7)] empty_world = (Ok Undefined, empty_world) \<and>
   invoke_syncWithLeader (module_init trading_prototype) ThisUndefined [] empty_world =
     (Ok Undefined, empty_world)"
  using syncWithLeader_disabled[of trading_prototype throwing_logger_executor
          "[Num (Finite 7)]" empty_world]
    syncWithLeader_disabled[of trading_prototype ThisUndefined "[]" empty_world]
  by (simp add: throwing_logger_executor_def new_TradeExecutor_def throwing_info_def
        empty_world_def prod_eq_iff)

text \<open>
  Claim C1, as the code has it. \<open>CopyTradingConfig\<close> has no field that selects the mode,
  and the override is assigned unconditionally: after it, the periodic sync gives the same
  result for every configuration and every method the class defined, and it performs no
  corrective trading. The periodic path is fixed to copy-only mode.
\<close>

theorem periodic_sync_fixed_mode:
  "periodic_sync proto config lg w = periodic_sync proto' config' lg w \<and>
   \<not> performs_corrective_trading w (snd (periodic_sync proto config lg w))"
  by (simp add: periodic_sync_def invoke_after_module_init syncWithLeader_override_result
        performs_corrective_trading_def syncWithLeader_try_frame
        syncWithLeader_try_lines new_TradeExecutor_def)

theorem periodic_sync_fixed_mode_witness:
  "periodic_sync trading_prototype default_config LoggerFalsy empty_world =
     (Ok Undefined, empty_world) \<and>
   periodic_sync trading_prototype
     (default_config\<lparr>risk := (risk default_config)\<lparr>copyRatio := Finite (- 1)\<rparr>\<rparr>)
     LoggerFalsy empty_world = (Ok Undefined, empty_world)"
proof -
  have "periodic_sync trading_prototype default_config LoggerFalsy empty_world =
          (Ok Undefined, empty_world)"
    by (simp add: periodic_sync_def invoke_after_module_init syncWithLeader_override_def
          syncWithLeader_try_def new_TradeExecutor_def)
  then show ?thesis
    using periodic_sync_fixed_mode[of trading_prototype
        "default_config\<lparr>risk := (risk default_config)\<lparr>copyRatio := Finite (- 1)\<rparr>\<rparr>"
        LoggerFalsy empty_world trading_prototype default_config]
    by simp
qed

text \<open>
  Claim C1 as stated fails: no configuration, no logger and no original method make the
  periodic sync perform corrective trading.
\<close>

theorem periodic_sync_flag_counterexample:
  "\<not> (\<exists>proto config lg w.
         performs_corrective_trading w (snd (periodic_sync proto config lg w)))"
  by (simp add: periodic_sync_def invoke_after_module_init syncWithLeader_override_result
        performs_corrective_trading_def syncWithLeader_try_frame)

text \<open>
  Claim C2, as the code has it. The callback that \<open>main\<close> registers with
  \<open>SubscriptionService\<close> drops the event and makes the one call
  \<open>tradeExecutor.syncWithLeader()\<close> without arguments, the same call as the periodic
  loop makes: its result is the same for every event, and it does not apply the fill to
  \<open>LeaderState\<close>.
\<close>

theorem leader_fill_callback_ignores_event:
  "leader_fill_callback proto ex ev w = invoke_syncWithLeader (module_init proto) ex [] w \<and>
   leader_fill_callback proto (new_TradeExecutor config lg) ev w = periodic_sync proto config lg w \<and>
   leader_fill_callback proto ex ev w = leader_fill_callback proto ex ev' w \<and>
   leaderState (snd (leader_fill_callback proto ex ev w)) = leaderState w"
  by (simp add: leader_fill_callback_def periodic_sync_def invoke_after_module_init
        syncWithLeader_override_result syncWithLeader_try_frame)

theorem leader_fill_callback_ignores_event_witness:
  "leader_fill_callback trading_prototype quiet_executor fill_btc empty_world =
     leader_fill_callback trading_prototype quiet_executor fill_eth empty_world \<and>
   leaderState (snd (leader_fill_callback trading_prototype quiet_executor fill_btc empty_world)) =
     leaderState empty_world"
  using leader_fill_callback_ignores_event[of trading_prototype quiet_executor fill_btc
          empty_world default_config LoggerFalsy fill_eth]
  by blast

text \<open>
  Claim C2 as stated fails: after the callback has run for a fill of 1 BTC on an empty
  \<open>LeaderState\<close>, the store still has no BTC position, so the fill was not applied.
\<close>

theorem leader_fill_callback_counterexample:
  "\<not> applies_fill fill_btc (leaderState empty_world)
       (leaderState
          (snd (leader_fill_callback trading_prototype quiet_executor fill_btc empty_world)))"
  by (simp add: leader_fill_callback_def invoke_after_module_init syncWithLeader_override_result
        syncWithLeader_try_frame applies_fill_def size_of_def fill_btc_def empty_world_def)

subsection \<open>Start-up\<close>

lemma main_config_error:
  "loadConfig env = Inl e \<Longrightarrow>
   main env ext = ([LoggerError ''Fatal error in copy trading agent'' e, ProcessExit 1], Exited 1)"
  by (simp add: main_def try_catch_def andThen_def logger_error_def process_exit_def)

lemma loadConfig_Inl_iff:
  "(\<exists>e. loadConfig env = Inl e) \<longleftrightarrow>
     (env ''LEADER_ADDRESS'' = None \<or> env ''LEADER_ADDRESS'' = Some [] \<or>
      env ''FOLLOWER_PRIVATE_KEY'' = None \<or> env ''FOLLOWER_PRIVATE_KEY'' = Some [])"
  by (auto simp: loadConfig_def Let_def split: option.splits)

lemma loadConfig_Inr_iff:
  "(\<exists>cfg. loadConfig env = Inr cfg) \<longleftrightarrow>
     (\<exists>l k. env ''LEADER_ADDRESS'' = Some l \<and> l \<noteq> [] \<and>
            env ''FOLLOWER_PRIVATE_KEY'' = Some k \<and> k \<noteq> [])"
  by (auto simp: loadConfig_def Let_def split: option.splits)

text \<open>
  Claim C4. \<open>loadConfig\<close> throws exactly when \<open>LEADER_ADDRESS\<close> or
  \<open>FOLLOWER_PRIVATE_KEY\<close> is absent or empty, and returns a configuration for every other
  environment; when it throws, \<open>main\<close> logs the error as fatal and exits the process with
  code 1, whatever the services would have done.
\<close>

theorem loadConfig_fatal_iff_required_missing:
  "((\<exists>e. loadConfig env = Inl e) \<longleftrightarrow>
      (env ''LEADER_ADDRESS'' = None \<or> env ''LEADER_ADDRESS'' = Some [] \<or>
       env ''FOLLOWER_PRIVATE_KEY'' = None \<or> env ''FOLLOWER_PRIVATE_KEY'' = Some [])) \<and>
   ((\<exists>cfg. loadConfig env = Inr cfg) \<longleftrightarrow>
      (\<exists>l k. env ''LEADER_ADDRESS'' = Some l \<and> l \<noteq> [] \<and>
             env ''FOLLOWER_PRIVATE_KEY'' = Some k \<and> k \<noteq> [])) \<and>
   (\<forall>e. loadConfig env = Inl e \<longrightarrow>
      main env ext =
        ([LoggerError ''Fatal error in copy trading agent'' e, ProcessExit 1], Exited 1))"
  using loadConfig_Inl_iff[of env] loadConfig_Inr_iff[of env] main_config_error[of env _ ext]
  by blast

theorem loadConfig_fatal_witness:
  "loadConfig Map.empty = Inl (Error ''LEADER_ADDRESS is required'') \<and>
   main Map.empty all_ok =
     ([LoggerError ''Fatal error in copy trading agent'' (Error ''LEADER_ADDRESS is required''),
       ProcessExit 1], Exited 1) \<and>
   loadConfig env_minimal = Inr default_config"
  using loadConfig_fatal_iff_required_missing[of Map.empty all_ok] loadConfig_defaults
  by (simp add: loadConfig_def)

lemma seq_call_Ok: "seq (call c (Ok u) # rest) = apfst ((@) [Call c, Done c]) (seq rest)"
  by (simp add: call_def andThen_def apfst_def map_prod_def split: flow.splits prod.splits)

lemma seq_call_Throws: "seq (call c (Throws e) # rest) = ([Call c, Raised c e], Thrown e)"
  by (simp add: call_def andThen_def)

lemma seq_call_Never: "seq (call c Never # rest) = ([Call c], Blocked)"
  by (simp add: call_def andThen_def)

lemma seq_event: "seq (([ev], Next) # rest) = apfst ((@) [ev]) (seq rest)"
  by (simp add: andThen_def apfst_def map_prod_def split: prod.splits)

lemma try_catch_apfst:
  "try_catch (apfst ((@) p) body) handler = apfst ((@) p) (try_catch body handler)"
  by (cases body) (simp add: try_catch_def andThen_def split: flow.splits)

lemma try_catch_Thrown:
  "try_catch (t, Thrown e) handler = apfst ((@) t) (handler e)"
  by (simp add: try_catch_def andThen_def apfst_def map_prod_def split: prod.splits)

lemma try_catch_Blocked: "try_catch (t, Blocked) handler = (t, Blocked)"
  by (simp add: try_catch_def)

lemma try_catch_Next: "try_catch (t, Next) handler = (t, Next)"
  by (simp add: try_catch_def)

lemma fatal_handler:
  "seq [logger_error msg e, process_exit code] =
     ([LoggerError msg e, ProcessExit code], Exited code)"
  by (simp add: andThen_def logger_error_def process_exit_def)

lemmas main_steps =
  seq_call_Ok seq_call_Throws seq_call_Never seq_event try_catch_apfst try_catch_Thrown
  try_catch_Blocked try_catch_Next fatal_handler

lemma main_all_ok:
  "main env_minimal all_ok =
     ([Call CreateHyperliquidClients, Done CreateHyperliquidClients,
       Call NewLeaderState, Done NewLeaderState,
       Call NewFollowerState, Done NewFollowerState,
       Call NewMarketMetadataService, Done NewMarketMetadataService,
       Call NewTradeExecutor, Done NewTradeExecutor,
       Call NewReconciler, Done NewReconciler,
       Call NewSubscriptionService, Done NewSubscriptionService,
       Call SubscriptionsStart, Done SubscriptionsStart,
       Call ReconcileOnce, Done ReconcileOnce,
       Call ReconcilerStart, Done ReconcilerStart,
       PollLoopStarted, HandlerRegistered SIGINT, HandlerRegistered SIGTERM], Next)"
  by (simp only: main_def loadConfig_defaults sum.case all_ok_def main_steps seq.simps(1))
     simp

lemma main_hanging_reconcile:
  "main env_minimal hanging_reconcile =
     ([Call CreateHyperliquidClients, Done CreateHyperliquidClients,
       Call NewLeaderState, Done NewLeaderState,
       Call NewFollowerState, Done NewFollowerState,
       Call NewMarketMetadataService, Done NewMarketMetadataService,
       Call NewTradeExecutor, Done NewTradeExecutor,
       Call NewReconciler, Done NewReconciler,
       Call NewSubscriptionService, Done NewSubscriptionService,
       Call SubscriptionsStart, Done SubscriptionsStart,
       Call ReconcileOnce], Blocked)"
  by (simp only: main_def loadConfig_defaults sum.case hanging_reconcile_def main_steps
        seq.simps(1) service_call.distinct if_True if_False refl)
     simp

lemma main_failing_reconcile:
  "main env_minimal failing_reconcile =
     ([Call CreateHyperliquidClients, Done CreateHyperliquidClients,
       Call NewLeaderState, Done NewLeaderState,
       Call NewFollowerState, Done NewFollowerState,
       Call NewMarketMetadataService, Done NewMarketMetadataService,
       Call NewTradeExecutor, Done NewTradeExecutor,
       Call NewReconciler, Done NewReconciler,
       Call NewSubscriptionService, Done NewSubscriptionService,
       Call SubscriptionsStart, Done SubscriptionsStart,
       Call ReconcileOnce, Raised ReconcileOnce (Error ''HTTP 429''),
       LoggerError ''Fatal error in copy trading agent'' (Error ''HTTP 429''),
       ProcessExit 1], Exited 1)"
  by (simp only: main_def loadConfig_defaults sum.case failing_reconcile_def main_steps
        seq.simps(1) service_call.distinct if_True if_False refl)
     simp

text \<open>
  Claim C7. In every run of \<open>main\<close>, \<open>reconciler.reconcileOnce()\<close> is called at most
  once; and whenever \<open>reconciler.start()\<close> is called, which every run that completes
  start-up does, it is called once, and before it exactly one \<open>reconcileOnce\<close> was
  called and awaited to its completion. The start depends on that completion:
  \<open>reconciler.start()\<close> is called exactly when the configuration loads and every call
  before it, \<open>reconcileOnce\<close> last, succeeds; a \<open>reconcileOnce\<close> that is rejected
  ends the process with code 1, and one that never settles leaves \<open>main\<close> waiting, in
  both cases without the periodic loop being started.
\<close>

theorem main_reconciles_before_reconciler_start:
  assumes "main env ext = (t, fl)"
  shows "count_list t (Call ReconcileOnce) \<le> 1 \<and>
   (fl = Next \<longrightarrow> Call ReconcilerStart \<in> set t) \<and>
   (Call ReconcilerStart \<in> set t \<longrightarrow>
      count_list (takeWhile (\<lambda>e. e \<noteq> Call ReconcilerStart) t) (Call ReconcileOnce) = 1 \<and>
      Done ReconcileOnce \<in> set (takeWhile (\<lambda>e. e \<noteq> Call ReconcilerStart) t) \<and>
      count_list t (Call ReconcilerStart) = 1) \<and>
   (Call ReconcilerStart \<in> set t \<longleftrightarrow>
      (\<exists>config. loadConfig env = Inr config) \<and>
      ext CreateHyperliquidClients = Ok () \<and> ext NewLeaderState = Ok () \<and>
      ext NewFollowerState = Ok () \<and> ext NewMarketMetadataService = Ok () \<and>
      ext NewTradeExecutor = Ok () \<and> ext NewReconciler = Ok () \<and>
      ext NewSubscriptionService = Ok () \<and> ext SubscriptionsStart = Ok () \<and>
      ext ReconcileOnce = Ok ()) \<and>
   (Done ReconcileOnce \<in> set t \<longleftrightarrow> Call ReconcilerStart \<in> set t) \<and>
   (Call ReconcileOnce \<in> set t \<longrightarrow>
      (case ext ReconcileOnce of
         Ok _ \<Rightarrow> Call ReconcilerStart \<in> set t
       | Throws e \<Rightarrow>
           Call ReconcilerStart \<notin> set t \<and> Raised ReconcileOnce e \<in> set t \<and> fl = Exited 1
       | Never \<Rightarrow>
           Call ReconcilerStart \<notin> set t \<and> last t = Call ReconcileOnce \<and> fl = Blocked))"
proof (cases "loadConfig env")
  case (Inl e)
  with assms show ?thesis by (auto simp add: main_config_error)
next
  case (Inr config)
  show ?thesis
    using assms unfolding main_def Inr sum.case
    apply (cases "ext CreateHyperliquidClients"; simp only: main_steps)
    apply (cases "ext NewLeaderState"; simp only: main_steps)
    apply (cases "ext NewFollowerState"; simp only: main_steps)
    apply (cases "ext NewMarketMetadataService"; simp only: main_steps)
    apply (cases "ext NewTradeExecutor"; simp only: main_steps)
    apply (cases "ext NewReconciler"; simp only: main_steps)
    apply (cases "ext NewSubscriptionService"; simp only: main_steps)
    apply (cases "ext SubscriptionsStart"; simp only: main_steps)
    apply (cases "ext ReconcileOnce"; simp only: main_steps)
    apply (cases "ext ReconcilerStart"; simp only: main_steps)
    apply (auto simp: main_steps)
    done
qed

theorem main_reconciles_before_reconciler_start_witness:
  "snd (main env_minimal all_ok) = Next \<and>
   Call ReconcilerStart \<in> set (fst (main env_minimal all_ok)) \<and>
   count_list (takeWhile (\<lambda>e. e \<noteq> Call ReconcilerStart) (fst (main env_minimal all_ok)))
     (Call ReconcileOnce) = 1 \<and>
   Done ReconcileOnce \<in>
     set (takeWhile (\<lambda>e. e \<noteq> Call ReconcilerStart) (fst (main env_minimal all_ok))) \<and>
   snd (main env_minimal hanging_reconcile) = Blocked \<and>
   Call ReconcileOnce \<in> set (fst (main env_minimal hanging_reconcile)) \<and>
   Call ReconcilerStart \<notin> set (fst (main env_minimal hanging_reconcile)) \<and>
   snd (main env_minimal failing_reconcile) = Exited 1 \<and>
   Call ReconcileOnce \<in> set (fst (main env_minimal failing_reconcile)) \<and>
   Call ReconcilerStart \<notin> set (fst (main env_minimal failing_reconcile))"
  using main_reconciles_before_reconciler_start[OF main_all_ok] main_reconciles_before_reconciler_start[OF main_hanging_reconcile] main_reconciles_before_reconciler_start[OF main_failing_reconcile]
  by (simp add: main_all_ok main_hanging_reconcile main_failing_reconcile)

subsection \<open>The poll loop\<close>

lemma pollLoop_iteration_cases:
  "pollLoop_iteration config sync =
     (case sync of
        Ok _ \<Rightarrow>
          ([Call SyncWithLeader, Done SyncWithLeader, DelayFor (refreshAccountIntervalMs config)],
           Next)
      | Throws e \<Rightarrow>
          ([Call SyncWithLeader, Raised SyncWithLeader e,
            LoggerError ''Periodic sync failed'' e,
            DelayFor (refreshAccountIntervalMs config)], Next)
      | Never \<Rightarrow> ([Call SyncWithLeader], Blocked))"
  by (simp add: pollLoop_iteration_def call_catch_def andThen_def logger_error_def delay_def
        split: outcome.splits)

lemma pollLoop_flow:
  "snd (pollLoop n config syncs i) = Next \<or> snd (pollLoop n config syncs i) = Blocked"
  by (induction n arbitrary: i)
     (auto simp: pollLoop_iteration_cases andThen_def split: outcome.splits)

lemma pollLoop_trace:
  "\<forall>k<n. syncs (i + k) \<noteq> Never \<Longrightarrow>
   pollLoop n config syncs i =
     (concat (map (\<lambda>k. fst (pollLoop_iteration config (syncs k))) [i..<i + n]), Next)"
proof (induction n arbitrary: i)
  case 0
  then show ?case by simp
next
  case (Suc n)
  from Suc.prems have "syncs (i + 0) \<noteq> Never" by blast
  then have here: "snd (pollLoop_iteration config (syncs i)) = Next"
    by (simp add: pollLoop_iteration_cases split: outcome.splits)
  from Suc.prems have "\<forall>k<n. syncs (Suc i + k) \<noteq> Never" by auto
  then have rest: "pollLoop n config syncs (Suc i) =
      (concat (map (\<lambda>k. fst (pollLoop_iteration config (syncs k))) [Suc i..<Suc i + n]), Next)"
    by (rule Suc.IH)
  have "[i..<i + Suc n] = i # [Suc i..<Suc i + n]" by (simp add: upt_rec)
  with here rest show ?case
    by (simp add: andThen_def)
qed

text \<open>
  Claim C6. A failed \<open>tradeExecutor.syncWithLeader()\<close> never ends the poll loop: a turn
  whose sync is rejected logs the error, waits for the configured
  \<open>refreshAccountIntervalMs\<close> and hands over to the next turn; the loop never throws and
  never exits the process; and as long as no sync hangs, \<open>n\<close> turns run one after the
  other, each with its delay, and the loop goes on.
\<close>

theorem pollLoop_survives_failed_sync:
  "pollLoop_iteration config (Throws e) =
     ([Call SyncWithLeader, Raised SyncWithLeader e, LoggerError ''Periodic sync failed'' e,
       DelayFor (refreshAccountIntervalMs config)], Next) \<and>
   (snd (pollLoop n config syncs 0) = Next \<or> snd (pollLoop n config syncs 0) = Blocked) \<and>
   ((\<forall>k<n. syncs k \<noteq> Never) \<longrightarrow>
      pollLoop n config syncs 0 =
        (concat (map (\<lambda>k. fst (pollLoop_iteration config (syncs k))) [0..<n]), Next))"
  using pollLoop_flow[of n config syncs 0] pollLoop_trace[of n syncs 0 config]
  by (simp add: pollLoop_iteration_cases)

theorem pollLoop_survives_failed_sync_witness:
  "pollLoop 2 default_config flaky_syncs 0 =
     ([Call SyncWithLeader, Raised SyncWithLeader (Error ''HTTP 502''),
       LoggerError ''Periodic sync failed'' (Error ''HTTP 502''), DelayFor (Finite 300000),
       Call SyncWithLeader, Done SyncWithLeader, DelayFor (Finite 300000)], Next)"
proof -
  have "\<forall>k<2::nat. flaky_syncs k \<noteq> Never"
    by (simp add: flaky_syncs_def)
  moreover have "[0..<2] = [0, Suc 0]"
    by (simp add: upt_rec)
  ultimately show ?thesis
    using pollLoop_survives_failed_sync[of default_config "Error ''HTTP 502''" 2 flaky_syncs]
    by (simp add: pollLoop_iteration_cases flaky_syncs_def default_config_def)
qed

subsection \<open>Shutdown\<close>




end
